theory Spec2Isabelle
  imports Main "HOL-Library.Word" "HOL-Library.Signed_Division"
begin

section \<open>The expression tree of ExprTree.cpp\<close>

text \<open>
  A shallow embedding of \<^verbatim>\<open>src/ExprTree.cpp\<close>: the tokeniser, the infix-to-postfix
  converter, the tree builder, the evaluator and the three renderers.

  Conventions of the embedding.
  \<^item> A C++ \<^verbatim>\<open>int\<close> is a 32-bit word, read as a signed value by \<open>sint\<close>. Where a
    result does not fit, \<open>+\<close>, \<open>-\<close> and \<open>*\<close> wrap around (two's complement).
  \<^item> The source has no \<^verbatim>\<open>throw\<close> and no error return. Where an execution leaves the
    defined behaviour of C++ (a null pointer is dereferenced, \<^verbatim>\<open>top()\<close> is called on an
    empty \<^verbatim>\<open>std::stack\<close>, an \<^verbatim>\<open>int\<close> is divided by zero or \<^verbatim>\<open>INT_MIN\<close> by -1, freed
    memory is used or freed again) the model returns \<open>Inl\<close> of the event and says
    nothing of what the machine does next; \<open>Inr\<close> is a normal return.
  \<^item> A \<^verbatim>\<open>TreeNode *\<close> that owns its subtree, all of it allocated, is a value of the
    datatype \<open>TreeNodePtr\<close>. The renderers free nodes: they run on a tree whose
    pointers may dangle (\<open>memory\<close>), and a later section has the same pointers as
    addresses into a store.
\<close>

type_synonym int32 = "32 word"

datatype undefined_behaviour =
    NullDereference
  | EmptyStackTop
  | UndefinedDivisionByZero
  | UndefinedDivisionOverflow
  | UseAfterFree

subsection \<open>Characters and numbers (lines 8-57)\<close>

definition isdigit :: "char \<Rightarrow> bool" where
  "isdigit c \<longleftrightarrow> c \<in> set ''0123456789''"

text \<open>\<^verbatim>\<open>is_number\<close>: the iterator walks over the leading digits; the string is a number
  when it is not empty and the walk reached its end.\<close>

definition is_number :: "string \<Rightarrow> bool" where
  "is_number s \<longleftrightarrow> s \<noteq> [] \<and> dropWhile isdigit s = []"

text \<open>The value of a digit character, and the character of a digit below ten.\<close>

definition digit_val :: "char \<Rightarrow> nat" where
  "digit_val c = of_char c - 48"

definition digit_char :: "nat \<Rightarrow> char" where
  "digit_char d = ''0123456789'' ! d"

text \<open>The value of a string of decimal digits, most significant digit first.\<close>

definition decimal :: "string \<Rightarrow> nat" where
  "decimal s = foldl (\<lambda>n c. 10 * n + digit_val c) 0 s"

text \<open>
  \<^verbatim>\<open>to_number\<close> is \<^verbatim>\<open>atoi\<close>, and the source calls it only on strings for which
  \<^verbatim>\<open>is_number\<close> holds, so only the digit loop of \<^verbatim>\<open>atoi\<close> is modelled. C leaves
  \<^verbatim>\<open>atoi\<close> undefined for a value beyond \<^verbatim>\<open>INT_MAX\<close>; the model reduces it modulo
  \<open>2 ^ 32\<close>, as the digit loop in 32-bit arithmetic does.
\<close>

definition to_number :: "string \<Rightarrow> int32" where
  "to_number s = word_of_nat (decimal (takeWhile isdigit s))"

text \<open>The decimal digits of a natural number, as \<^verbatim>\<open>operator<<\<close> prints them.\<close>

function digits_of :: "nat \<Rightarrow> string" where
  "digits_of n = (if n < 10 then [digit_char n] else digits_of (n div 10) @ [digit_char (n mod 10)])"
  by pat_completeness auto
termination
  by (relation "measure id") auto

declare digits_of.simps [simp del]

text \<open>\<^verbatim>\<open>to_string(const int &)\<close>: the stream prints a minus sign and the magnitude.\<close>

definition to_string :: "int32 \<Rightarrow> string" where
  "to_string n = (if sint n < 0 then CHR ''-'' # digits_of (nat (- sint n))
                  else digits_of (nat (sint n)))"

subsection \<open>Tree nodes\<close>

text \<open>
  Modelled from the spec: the class \<^verbatim>\<open>TreeNode\<close> (\<^verbatim>\<open>TreeNode.h\<close> is not under src/).
  A node has one of six kinds, an integer value and two child pointers; the
  constructor from an integer makes a \<open>Value\<close> node, the constructor from an operator
  kind a node of that kind, both with null children; \<^verbatim>\<open>toString\<close> is the numeral of a
  \<open>Value\<close> node and the one-character symbol of an operator node. Neither the source
  nor the spec says what value an operator node holds: the model takes 0, and
  \<open>evaluate\<close> and the renderers read the value of no \<open>Plus\<close>, \<open>Minus\<close>, \<open>Times\<close> or
  \<open>Divide\<close> node.
\<close>

datatype Operator = Value | Plus | Minus | Times | Divide | NoOp

datatype TreeNodePtr =
    Null
  | Node (getOperator: Operator) (getValue: int32)
         (getLeftChild: TreeNodePtr) (getRightChild: TreeNodePtr)

definition new_TreeNode_op :: "Operator \<Rightarrow> TreeNodePtr" where
  "new_TreeNode_op k = Node k 0 Null Null"

definition new_TreeNode_int :: "int32 \<Rightarrow> TreeNodePtr" where
  "new_TreeNode_int v = Node Value v Null Null"

fun setLeftChild :: "TreeNodePtr \<Rightarrow> TreeNodePtr \<Rightarrow> TreeNodePtr" where
  "setLeftChild (Node k v l r) c = Node k v c r"
| "setLeftChild Null c = Null"

fun setRightChild :: "TreeNodePtr \<Rightarrow> TreeNodePtr \<Rightarrow> TreeNodePtr" where
  "setRightChild (Node k v l r) c = Node k v l c"
| "setRightChild Null c = Null"

fun toString :: "Operator \<Rightarrow> int32 \<Rightarrow> string" where
  "toString Value v = to_string v"
| "toString Plus v = ''+''"
| "toString Minus v = ''-''"
| "toString Times v = ''*''"
| "toString Divide v = ''/''"
| "toString NoOp v = ''''"

definition createOperatorNode :: "string \<Rightarrow> TreeNodePtr" where
  "createOperatorNode opr =
     (if opr = ''+'' then new_TreeNode_op Plus
      else if opr = ''-'' then new_TreeNode_op Minus
      else if opr = ''*'' then new_TreeNode_op Times
      else if opr = ''/'' then new_TreeNode_op Divide
      else new_TreeNode_op NoOp)"

fun countSize :: "TreeNodePtr \<Rightarrow> int32" where
  "countSize Null = 0"
| "countSize (Node k v l r) = countSize l + countSize r + 1"

subsection \<open>The tree object (lines 88-99, 324-334)\<close>

record ExprTree =
  root :: TreeNodePtr
  cached_size :: int32

definition ExprTree_empty :: ExprTree where
  "ExprTree_empty = \<lparr>root = Null, cached_size = countSize Null\<rparr>"

definition ExprTree_of :: "TreeNodePtr \<Rightarrow> ExprTree" where
  "ExprTree_of r = \<lparr>root = r, cached_size = countSize r\<rparr>"


definition isEmpty :: "ExprTree \<Rightarrow> bool" where
  "isEmpty t \<longleftrightarrow> cached_size t = 0"

definition getRoot :: "ExprTree \<Rightarrow> TreeNodePtr" where
  "getRoot t = root t"

subsection \<open>tokenise (lines 122-134)\<close>

fun tokenise_loop :: "string \<Rightarrow> string list \<Rightarrow> string list" where
  "tokenise_loop [] vec = vec"
| "tokenise_loop (c # cs) vec =
     (if c \<noteq> CHR '' '' then
        (if vec \<noteq> [] \<and> isdigit c \<and> is_number (last vec)
         then tokenise_loop cs (butlast vec @ [last vec @ [c]])
         else tokenise_loop cs (vec @ [[c]]))
      else tokenise_loop cs vec)"

definition tokenise :: "string \<Rightarrow> string list" where
  "tokenise expression = tokenise_loop expression []"

subsection \<open>to_postfix (lines 141-202)\<close>

definition getPrecedence :: "string \<Rightarrow> nat" where
  "getPrecedence opr =
     (if opr = ''('' then 0
      else if opr = ''+'' \<or> opr = ''-'' then 1
      else if opr = ''*'' \<or> opr = ''/'' then 2
      else 3)"

text \<open>The operator stack is a list with its top at the head. The loop of lines
  179-183: \<^verbatim>\<open>top()\<close> is read first, on an empty stack too.\<close>

fun pop_to_open :: "string list \<Rightarrow> string list \<Rightarrow> undefined_behaviour + (string list \<times> string list)" where
  "pop_to_open [] vec = Inl EmptyStackTop"
| "pop_to_open (t # opStack) vec =
     (if t \<noteq> ''('' then pop_to_open opStack (vec @ [t]) else Inr (opStack, vec))"

text \<open>The loop of lines 189-192.\<close>

fun pop_not_lower :: "string \<Rightarrow> string list \<Rightarrow> string list \<Rightarrow> string list \<times> string list" where
  "pop_not_lower i [] vec = ([], vec)"
| "pop_not_lower i (t # opStack) vec =
     (if getPrecedence t \<ge> getPrecedence i then pop_not_lower i opStack (vec @ [t])
      else (t # opStack, vec))"

text \<open>The loop of lines 197-200.\<close>

fun pop_all :: "string list \<Rightarrow> string list \<Rightarrow> string list" where
  "pop_all [] vec = vec"
| "pop_all (t # opStack) vec = pop_all opStack (vec @ [t])"

fun postfix_loop :: "string list \<Rightarrow> string list \<Rightarrow> string list \<Rightarrow> undefined_behaviour + string list" where
  "postfix_loop [] opStack vec = Inr (pop_all opStack vec)"
| "postfix_loop (i # tokens) opStack vec =
     (if i = ''('' then postfix_loop tokens (i # opStack) vec
      else if i = '')'' then
        (case pop_to_open opStack vec of
           Inl e \<Rightarrow> Inl e
         | Inr (opStack', vec') \<Rightarrow> postfix_loop tokens opStack' vec')
      else if is_number i then postfix_loop tokens opStack (vec @ [i])
      else (case pop_not_lower i opStack vec of
              (opStack', vec') \<Rightarrow> postfix_loop tokens (i # opStack') vec'))"

definition to_postfix :: "string list \<Rightarrow> undefined_behaviour + string list" where
  "to_postfix tokens = postfix_loop tokens [] []"

subsection \<open>buildTree (lines 218-239)\<close>

text \<open>The node stack has its top at the head. An operator token reads \<^verbatim>\<open>top()\<close>
  twice, each time on a stack that may be empty.\<close>

fun build_loop :: "string list \<Rightarrow> TreeNodePtr list \<Rightarrow> undefined_behaviour + TreeNodePtr list" where
  "build_loop [] nodeStack = Inr nodeStack"
| "build_loop (i # postfix) nodeStack =
     (if is_number i then build_loop postfix (new_TreeNode_int (to_number i) # nodeStack)
      else (case nodeStack of
              [] \<Rightarrow> Inl EmptyStackTop
            | r # nodeStack1 \<Rightarrow>
               (case nodeStack1 of
                  [] \<Rightarrow> Inl EmptyStackTop
                | l # nodeStack2 \<Rightarrow>
                    build_loop postfix
                      (setLeftChild (setRightChild (createOperatorNode i) r) l # nodeStack2))))"

definition buildTree :: "string list \<Rightarrow> undefined_behaviour + ExprTree" where
  "buildTree tokens =
     (case to_postfix tokens of
        Inl e \<Rightarrow> Inl e
      | Inr postfix \<Rightarrow>
         (case build_loop postfix [] of
            Inl e \<Rightarrow> Inl e
          | Inr nodeStack \<Rightarrow>
             (case nodeStack of
                [] \<Rightarrow> Inr (ExprTree_of Null)
              | t # _ \<Rightarrow> Inr (ExprTree_of t))))"

subsection \<open>evaluate (lines 245-265)\<close>

text \<open>
  The operator \<^verbatim>\<open>/\<close> on two \<^verbatim>\<open>int\<close>s (line 254). The source does not test the divisor.
  C++ leaves the division undefined when the divisor is zero and when the quotient is
  not an \<^verbatim>\<open>int\<close>, which is the case of \<^verbatim>\<open>INT_MIN\<close> divided by -1 only; otherwise the
  quotient truncates towards zero (\<open>sdiv\<close> on the integers).
\<close>

definition int_div :: "int32 \<Rightarrow> int32 \<Rightarrow> undefined_behaviour + int32" where
  "int_div a b =
     (if b = 0 then Inl UndefinedDivisionByZero
      else if sint a = - (2 ^ 31) \<and> sint b = - 1 then Inl UndefinedDivisionOverflow
      else Inr (word_of_int (sint a sdiv sint b)))"

text \<open>An operator node evaluates both children and combines the two values. C++
  does not fix which child is evaluated first; the model evaluates the left one
  first.\<close>

definition binop :: "(int32 \<Rightarrow> int32 \<Rightarrow> undefined_behaviour + int32) \<Rightarrow>
    undefined_behaviour + int32 \<Rightarrow> undefined_behaviour + int32 \<Rightarrow> undefined_behaviour + int32" where
  "binop f x y =
     (case x of Inl e \<Rightarrow> Inl e
      | Inr a \<Rightarrow> (case y of Inl e \<Rightarrow> Inl e | Inr b \<Rightarrow> f a b))"

fun evaluate :: "TreeNodePtr \<Rightarrow> undefined_behaviour + int32" where
  "evaluate Null = Inl NullDereference"
| "evaluate (Node k v l r) =
     (case k of
        Plus \<Rightarrow> binop (\<lambda>a b. Inr (a + b)) (evaluate l) (evaluate r)
      | Minus \<Rightarrow> binop (\<lambda>a b. Inr (a - b)) (evaluate l) (evaluate r)
      | Times \<Rightarrow> binop (\<lambda>a b. Inr (a * b)) (evaluate l) (evaluate r)
      | Divide \<Rightarrow> binop int_div (evaluate l) (evaluate r)
      | _ \<Rightarrow> Inr v)"

definition evaluateWholeTree :: "ExprTree \<Rightarrow> undefined_behaviour + int32" where
  "evaluateWholeTree t = evaluate (root t)"

subsection \<open>The renderers (lines 272-319)\<close>

text \<open>
  A renderer takes a \<^verbatim>\<open>const ExprTree &\<close>, and its recursive calls pass
  \<^verbatim>\<open>t.root->getLeftChild()\<close> and \<^verbatim>\<open>t.root->getRightChild()\<close>, which are \<^verbatim>\<open>TreeNode *\<close>.
  Each call therefore constructs a temporary \<^verbatim>\<open>ExprTree\<close> from the pointer, by the
  constructor of lines 96-99, which runs \<^verbatim>\<open>countSize\<close>; at the end of the \<^verbatim>\<open>return\<close>
  statement the temporaries are destroyed, last constructed first, by the destructor of
  lines 104-106, which deletes the root it was given. So a renderer frees nodes of the
  tree it renders, and it runs on trees some of whose nodes have been freed. C++ does
  not fix which of the two recursive calls runs first; the model runs the left one
  first.

  \<open>memory\<close> is a pointer with what it points at: null, an object that has been freed, or
  a node with its two child pointers. Every node is owned by one pointer, so the
  temporary and the child pointer it was made from are the same \<open>memory\<close>.
\<close>

datatype memory =
    NullPtr
  | Freed
  | Object Operator int32 memory memory

fun live :: "TreeNodePtr \<Rightarrow> memory" where
  "live Null = NullPtr"
| "live (Node k v l r) = Object k v (live l) (live r)"

definition after ::
  "undefined_behaviour + 'a \<Rightarrow> ('a \<Rightarrow> undefined_behaviour + 'b) \<Rightarrow> undefined_behaviour + 'b" where
  "after m f = (case m of Inl e \<Rightarrow> Inl e | Inr x \<Rightarrow> f x)"

text \<open>\<^verbatim>\<open>countSize\<close> (lines 79-83) where nodes may have been freed.\<close>

fun countSize_mem :: "memory \<Rightarrow> undefined_behaviour + int32" where
  "countSize_mem NullPtr = Inr 0"
| "countSize_mem Freed = Inl UseAfterFree"
| "countSize_mem (Object k v l r) =
     after (countSize_mem l) (\<lambda>x. after (countSize_mem r) (\<lambda>y. Inr (x + y + 1)))"

text \<open>
  \<^verbatim>\<open>delete p\<close>; the result is what \<open>p\<close> points at afterwards. Deleting the null
  pointer does nothing.
  Modelled from the spec: the destructor of \<^verbatim>\<open>TreeNode\<close> (not under src/), which
  releases the children that the node owns, recursively; then the node is freed.
\<close>

fun delete_mem :: "memory \<Rightarrow> undefined_behaviour + memory" where
  "delete_mem NullPtr = Inr NullPtr"
| "delete_mem Freed = Inl UseAfterFree"
| "delete_mem (Object k v l r) =
     after (delete_mem l) (\<lambda>l'. after (delete_mem r) (\<lambda>r'. Inr Freed))"

text \<open>A renderer on the tree object whose root is given; \<open>f\<close> puts the three strings
  in the order of the notation. The result is the string and what the root points at
  when the renderer returns.\<close>

fun render_mem :: "(string \<Rightarrow> string \<Rightarrow> string \<Rightarrow> string) \<Rightarrow> memory \<Rightarrow>
    undefined_behaviour + string \<times> memory" where
  "render_mem f NullPtr = Inl NullDereference"
| "render_mem f Freed = Inl UseAfterFree"
| "render_mem f (Object k v l r) =
     (case k of
        Value \<Rightarrow> Inr (toString k v, Object k v l r)
      | NoOp \<Rightarrow> Inr ('''', Object k v l r)
      | _ \<Rightarrow>
          after (countSize_mem l) (\<lambda>size_l.
          after (render_mem f l) (\<lambda>(s_l, l1).
          after (countSize_mem r) (\<lambda>size_r.
          after (render_mem f r) (\<lambda>(s_r, r1).
          after (delete_mem r1) (\<lambda>r2.
          after (delete_mem l1) (\<lambda>l2.
          Inr (f (toString k v) s_l s_r, Object k v l2 r2))))))))"

text \<open>The three renderers on a tree object all of whose nodes are allocated; the
  string is returned.\<close>

definition prefixOrder :: "ExprTree \<Rightarrow> undefined_behaviour + string" where
  "prefixOrder t =
     after (render_mem (\<lambda>s a b. s @ '' '' @ a @ '' '' @ b) (live (root t))) (\<lambda>(s, m). Inr s)"

definition infixOrder :: "ExprTree \<Rightarrow> undefined_behaviour + string" where
  "infixOrder t =
     after (render_mem (\<lambda>s a b. a @ '' '' @ s @ '' '' @ b) (live (root t))) (\<lambda>(s, m). Inr s)"

definition postfixOrder :: "ExprTree \<Rightarrow> undefined_behaviour + string" where
  "postfixOrder t =
     after (render_mem (\<lambda>s a b. a @ '' '' @ b @ '' '' @ s) (live (root t))) (\<lambda>(s, m). Inr s)"

subsection \<open>The pipeline\<close>

text \<open>\<^verbatim>\<open>evaluateWholeTree(buildTree(tokens))\<close>, as a caller composes the two.\<close>

definition evaluate_tokens :: "string list \<Rightarrow> undefined_behaviour + int32" where
  "evaluate_tokens tokens =
     (case buildTree tokens of Inl e \<Rightarrow> Inl e | Inr t \<Rightarrow> evaluateWholeTree t)"


section \<open>Well-formed expressions and their values\<close>

text \<open>
  The reference against which the pipeline is checked, written from the words of the
  specification: a well-formed expression is a parse tree of the grammar
  \<^verbatim>\<open>expression ::= term | expression (+|-) term\<close>,
  \<^verbatim>\<open>term ::= factor | term (*|/) factor\<close>,
  \<^verbatim>\<open>factor ::= number | ( expression )\<close>,
  in which \<open>*\<close> and \<open>/\<close> bind tighter than \<open>+\<close> and \<open>-\<close> and operators of equal
  precedence associate to the left. A parse tree has a token sequence and a value in
  the integers, with division truncating towards zero.
\<close>

datatype phrase =
    Number string
  | Paren phrase
  | Binary phrase char phrase

text \<open>2 for a factor, 1 for a product or quotient, 0 for a sum or difference.\<close>

fun level :: "phrase \<Rightarrow> nat" where
  "level (Number s) = 2"
| "level (Paren e) = 2"
| "level (Binary l c r) = (if c \<in> set ''*/'' then 1 else 0)"

fun grammatical :: "phrase \<Rightarrow> bool" where
  "grammatical (Number s) = is_number s"
| "grammatical (Paren e) = grammatical e"
| "grammatical (Binary l c r) =
     (grammatical l \<and> grammatical r \<and>
      (c \<in> set ''+-'' \<and> 1 \<le> level r \<or> c \<in> set ''*/'' \<and> 1 \<le> level l \<and> level r = 2))"

fun tokens_of :: "phrase \<Rightarrow> string list" where
  "tokens_of (Number s) = [s]"
| "tokens_of (Paren e) = ''('' # tokens_of e @ ['')'']"
| "tokens_of (Binary l c r) = tokens_of l @ [c] # tokens_of r"

text \<open>The value in the integers; \<open>None\<close> where a divisor is zero.\<close>

fun meaning :: "phrase \<Rightarrow> int option" where
  "meaning (Number s) = Some (int (decimal s))"
| "meaning (Paren e) = meaning e"
| "meaning (Binary l c r) =
     (case meaning l of None \<Rightarrow> None
      | Some a \<Rightarrow>
         (case meaning r of None \<Rightarrow> None
          | Some b \<Rightarrow>
             if c = CHR ''+'' then Some (a + b)
             else if c = CHR ''-'' then Some (a - b)
             else if c = CHR ''*'' then Some (a * b)
             else if c = CHR ''/'' \<and> b \<noteq> 0 then Some (a sdiv b)
             else None))"

text \<open>The range of a C++ \<^verbatim>\<open>int\<close>, and the parse trees all of whose numbers and
  intermediate results lie in it.\<close>

definition in_int :: "int \<Rightarrow> bool" where
  "in_int v \<longleftrightarrow> - (2 ^ 31) \<le> v \<and> v < 2 ^ 31"

fun within_int :: "phrase \<Rightarrow> bool" where
  "within_int (Number s) = in_int (int (decimal s))"
| "within_int (Paren e) = within_int e"
| "within_int (Binary l c r) =
     (within_int l \<and> within_int r \<and>
      (case meaning (Binary l c r) of None \<Rightarrow> False | Some v \<Rightarrow> in_int v))"

text \<open>The postfix sequence and the tree that a parse tree stands for.\<close>

fun postfix_of :: "phrase \<Rightarrow> string list" where
  "postfix_of (Number s) = [s]"
| "postfix_of (Paren e) = postfix_of e"
| "postfix_of (Binary l c r) = postfix_of l @ postfix_of r @ [[c]]"

definition kind_of :: "char \<Rightarrow> Operator" where
  "kind_of c = (if c = CHR ''+'' then Plus else if c = CHR ''-'' then Minus
                else if c = CHR ''*'' then Times else if c = CHR ''/'' then Divide else NoOp)"

fun tree_of :: "phrase \<Rightarrow> TreeNodePtr" where
  "tree_of (Number s) = Node Value (to_number s) Null Null"
| "tree_of (Paren e) = tree_of e"
| "tree_of (Binary l c r) = Node (kind_of c) 0 (tree_of l) (tree_of r)"

text \<open>
  While the converter reads a parse tree, the operators of its right spine wait on the
  stack (\<open>pending\<close>, top first) and everything else is in the output (\<open>emitted\<close>).
  A stack admits a parse tree when its top cannot be popped by an operator of the tree.
\<close>

fun pending :: "phrase \<Rightarrow> string list" where
  "pending (Number s) = []"
| "pending (Paren e) = []"
| "pending (Binary l c r) = pending r @ [[c]]"

fun emitted :: "phrase \<Rightarrow> string list" where
  "emitted (Number s) = [s]"
| "emitted (Paren e) = postfix_of e"
| "emitted (Binary l c r) = postfix_of l @ emitted r"

definition admits :: "phrase \<Rightarrow> string list \<Rightarrow> bool" where
  "admits e opStack \<longleftrightarrow>
     (case opStack of [] \<Rightarrow> True | t # _ \<Rightarrow> level e = 2 \<or> getPrecedence t \<le> level e)"

text \<open>Number tokens, operator tokens, and the nodes reachable from a pointer.\<close>

definition is_operator :: "string \<Rightarrow> bool" where
  "is_operator t \<longleftrightarrow> t \<in> {''+'', ''-'', ''*'', ''/''}"


text \<open>The shape of a token: not empty, and all digits when longer than one character.\<close>

definition token_ok :: "string \<Rightarrow> bool" where
  "token_ok t \<longleftrightarrow> t \<noteq> [] \<and> (1 < length t \<longrightarrow> is_number t)"

text \<open>
  Trees of \<open>Value\<close> leaves and \<open>Plus\<close>, \<open>Minus\<close>, \<open>Times\<close>, \<open>Divide\<close> nodes with both
  children, and the presence in a tree of a \<open>Divide\<close> node whose right subtree
  evaluates to zero.
\<close>

fun arithmetic_tree :: "TreeNodePtr \<Rightarrow> bool" where
  "arithmetic_tree Null = False"
| "arithmetic_tree (Node k v l r) =
     (case k of
        Value \<Rightarrow> l = Null \<and> r = Null
      | NoOp \<Rightarrow> False
      | _ \<Rightarrow> arithmetic_tree l \<and> arithmetic_tree r)"

fun divides_by_zero :: "TreeNodePtr \<Rightarrow> bool" where
  "divides_by_zero Null = False"
| "divides_by_zero (Node k v l r) =
     (k = Divide \<and> evaluate r = Inr 0 \<or> divides_by_zero l \<or> divides_by_zero r)"

text \<open>A closing parenthesis with no opening parenthesis before it that is still
  open; \<open>d\<close> counts the parentheses open so far.\<close>

fun unmatched_close :: "nat \<Rightarrow> string list \<Rightarrow> bool" where
  "unmatched_close d [] = False"
| "unmatched_close d (t # ts) =
     (if t = ''('' then unmatched_close (Suc d) ts
      else if t = '')'' then d = 0 \<or> unmatched_close (d - 1) ts
      else unmatched_close d ts)"

text \<open>
  The round trip of claim C8: the built tree is rendered by \<open>infixOrder\<close>, and the
  string is tokenised, built again and evaluated.
\<close>

definition round_trip :: "string list \<Rightarrow> undefined_behaviour + int32" where
  "round_trip tokens =
     (case buildTree tokens of
        Inl e \<Rightarrow> Inl e
      | Inr t \<Rightarrow>
         (case infixOrder t of
            Inl e \<Rightarrow> Inl e
          | Inr s \<Rightarrow> evaluate_tokens (tokenise s)))"

text \<open>
  A chain of operators of one precedence with numbers between them,
  \<^verbatim>\<open>x0 c1 x1 c2 x2 ...\<close>: its tokens, its postfix sequence, and the tree that groups it
  from the left, \<^verbatim>\<open>((x0 c1 x1) c2 x2) ...\<close>; \<open>chain_phrase\<close> is its parse tree.
\<close>

fun chain_tokens :: "string \<Rightarrow> (char \<times> string) list \<Rightarrow> string list" where
  "chain_tokens x [] = [x]"
| "chain_tokens x ((c, y) # ps) = x # [c] # chain_tokens y ps"

fun chain_postfix :: "(char \<times> string) list \<Rightarrow> string list" where
  "chain_postfix [] = []"
| "chain_postfix ((c, y) # ps) = y # [c] # chain_postfix ps"

fun chain_tree :: "TreeNodePtr \<Rightarrow> (char \<times> string) list \<Rightarrow> TreeNodePtr" where
  "chain_tree t [] = t"
| "chain_tree t ((c, y) # ps) =
     chain_tree (Node (kind_of c) 0 t (Node Value (to_number y) Null Null)) ps"

fun chain_phrase :: "phrase \<Rightarrow> (char \<times> string) list \<Rightarrow> phrase" where
  "chain_phrase e [] = e"
| "chain_phrase e ((c, y) # ps) = chain_phrase (Binary e c (Number y)) ps"

definition one_precedence :: "(char \<times> string) list \<Rightarrow> bool" where
  "one_precedence ps \<longleftrightarrow>
     list_all (\<lambda>(c, y). is_number y) ps \<and>
     (list_all (\<lambda>(c, y). c \<in> set ''+-'') ps \<or> list_all (\<lambda>(c, y). c \<in> set ''*/'') ps)"

section \<open>The nodes in a store\<close>

text \<open>
  The nodes of a tree live in a store, a map from addresses to node objects; a
  \<^verbatim>\<open>TreeNode *\<close> is an address or null, and an address with no object has been freed.
  The functions that follow pointers take a bound on the depth of their recursion and
  return \<open>None\<close> when it is exhausted. \<open>countSize_at\<close>, \<open>delete_at\<close> and \<open>render_at\<close> are
  \<open>countSize_mem\<close>, \<open>delete_mem\<close> and \<open>render_mem\<close> on addresses.
\<close>

type_synonym addr = nat

record TreeNode_obj =
  obj_op :: Operator
  obj_value :: int32
  obj_left :: "addr option"
  obj_right :: "addr option"

type_synonym store = "addr \<Rightarrow> TreeNode_obj option"

definition and_then ::
  "(undefined_behaviour + 'a) option \<Rightarrow> ('a \<Rightarrow> (undefined_behaviour + 'b) option) \<Rightarrow>
     (undefined_behaviour + 'b) option" where
  "and_then m f = (case m of None \<Rightarrow> None | Some (Inl e) \<Rightarrow> Some (Inl e) | Some (Inr x) \<Rightarrow> f x)"

text \<open>\<^verbatim>\<open>countSize\<close> (lines 79-83), which the constructor \<^verbatim>\<open>ExprTree(TreeNode *)\<close> runs.\<close>

fun countSize_at :: "nat \<Rightarrow> store \<Rightarrow> addr option \<Rightarrow> (undefined_behaviour + int32) option" where
  "countSize_at 0 h p = None"
| "countSize_at (Suc n) h None = Some (Inr 0)"
| "countSize_at (Suc n) h (Some a) =
     (case h a of
        None \<Rightarrow> Some (Inl UseAfterFree)
      | Some obj \<Rightarrow>
          and_then (countSize_at n h (obj_left obj)) (\<lambda>x.
          and_then (countSize_at n h (obj_right obj)) (\<lambda>y.
          Some (Inr (x + y + 1)))))"

text \<open>
  \<^verbatim>\<open>delete p\<close>, as the destructor \<^verbatim>\<open>~ExprTree\<close> (lines 104-106) applies it to the root.
  Modelled from the spec: the destructor of \<^verbatim>\<open>TreeNode\<close> (not under src/), which
  releases the children that the node owns, recursively; then the node is freed.
\<close>

fun delete_at :: "nat \<Rightarrow> store \<Rightarrow> addr option \<Rightarrow> (undefined_behaviour + store) option" where
  "delete_at 0 h p = None"
| "delete_at (Suc n) h None = Some (Inr h)"
| "delete_at (Suc n) h (Some a) =
     (case h a of
        None \<Rightarrow> Some (Inl UseAfterFree)
      | Some obj \<Rightarrow>
          and_then (delete_at n h (obj_left obj)) (\<lambda>h1.
          and_then (delete_at n h1 (obj_right obj)) (\<lambda>h2.
          Some (Inr (h2(a := None))))))"

text \<open>
  A renderer (lines 272-319) on the tree object whose root is the pointer given; \<open>f\<close>
  puts the three strings in the order of the notation. For an operator node the
  \<^verbatim>\<open>return\<close> statement passes \<^verbatim>\<open>t.root->getLeftChild()\<close> and
  \<^verbatim>\<open>t.root->getRightChild()\<close>, both \<^verbatim>\<open>TreeNode *\<close>, to a parameter of type
  \<^verbatim>\<open>const ExprTree &\<close>: each call constructs a temporary \<^verbatim>\<open>ExprTree\<close> from the pointer
  (the constructor of lines 96-99, which runs \<^verbatim>\<open>countSize\<close>), and at the end of the
  statement the temporaries are destroyed, last constructed first, by the destructor of
  lines 104-106, which deletes the root it was given.
\<close>

fun render_at :: "(string \<Rightarrow> string \<Rightarrow> string \<Rightarrow> string) \<Rightarrow> nat \<Rightarrow> store \<Rightarrow> addr option \<Rightarrow>
    (undefined_behaviour + string \<times> store) option" where
  "render_at f 0 h p = None"
| "render_at f (Suc n) h None = Some (Inl NullDereference)"
| "render_at f (Suc n) h (Some a) =
     (case h a of
        None \<Rightarrow> Some (Inl UseAfterFree)
      | Some obj \<Rightarrow>
         (case obj_op obj of
            Value \<Rightarrow> Some (Inr (toString Value (obj_value obj), h))
          | NoOp \<Rightarrow> Some (Inr ('''', h))
          | _ \<Rightarrow>
              and_then (countSize_at n h (obj_left obj)) (\<lambda>size_l.
              and_then (render_at f n h (obj_left obj)) (\<lambda>(s_l, h1).
              and_then (countSize_at n h1 (obj_right obj)) (\<lambda>size_r.
              and_then (render_at f n h1 (obj_right obj)) (\<lambda>(s_r, h2).
              and_then (delete_at n h2 (obj_right obj)) (\<lambda>h3.
              and_then (delete_at n h3 (obj_left obj)) (\<lambda>h4.
              Some (Inr (f (toString (obj_op obj) (obj_value obj)) s_l s_r, h4))))))))))"

definition prefixOrder_at :: "nat \<Rightarrow> store \<Rightarrow> addr option \<Rightarrow> (undefined_behaviour + string \<times> store) option" where
  "prefixOrder_at = render_at (\<lambda>s a b. s @ '' '' @ a @ '' '' @ b)"

definition infixOrder_at :: "nat \<Rightarrow> store \<Rightarrow> addr option \<Rightarrow> (undefined_behaviour + string \<times> store) option" where
  "infixOrder_at = render_at (\<lambda>s a b. a @ '' '' @ s @ '' '' @ b)"

definition postfixOrder_at :: "nat \<Rightarrow> store \<Rightarrow> addr option \<Rightarrow> (undefined_behaviour + string \<times> store) option" where
  "postfixOrder_at = render_at (\<lambda>s a b. a @ '' '' @ b @ '' '' @ s)"

text \<open>A tree laid out in a store from a free address on: the children first, then
  the node; the result is the pointer to the tree, the store and the next free address.\<close>

fun place :: "TreeNodePtr \<Rightarrow> store \<Rightarrow> addr \<Rightarrow> addr option \<times> store \<times> addr" where
  "place Null h a = (None, h, a)"
| "place (Node k v l r) h a =
     (case place l h a of (pl, h1, a1) \<Rightarrow>
        (case place r h1 a1 of (pr, h2, a2) \<Rightarrow>
           (Some a2,
            h2(a2 \<mapsto> \<lparr>obj_op = k, obj_value = v, obj_left = pl, obj_right = pr\<rparr>),
            Suc a2)))"

text \<open>The tree of \<^verbatim>\<open>1+2\<close> and its store, and what a renderer leaves of a store at the
  three addresses of the tree.\<close>

definition tree_1_plus_2 :: TreeNodePtr where
  "tree_1_plus_2 = Node Plus 0 (Node Value 1 Null Null) (Node Value 2 Null Null)"

definition store_1_plus_2 :: store where
  "store_1_plus_2 =
     [0 \<mapsto> \<lparr>obj_op = Value, obj_value = 1, obj_left = None, obj_right = None\<rparr>,
      1 \<mapsto> \<lparr>obj_op = Value, obj_value = 2, obj_left = None, obj_right = None\<rparr>,
      2 \<mapsto> \<lparr>obj_op = Plus, obj_value = 0, obj_left = Some 0, obj_right = Some 1\<rparr>]"

definition outcome ::
  "(undefined_behaviour + string \<times> store) option \<Rightarrow>
     (undefined_behaviour + string \<times> TreeNode_obj option list) option" where
  "outcome x = map_option (map_sum id (\<lambda>(s, h). (s, map h [0, 1, 2]))) x"

section \<open>The tokeniser\<close>

lemma is_number_iff: "is_number s \<longleftrightarrow> s \<noteq> [] \<and> (\<forall>c\<in>set s. isdigit c)"
  by (simp add: is_number_def dropWhile_eq_Nil_conv)

lemma tokenise_loop_token_ok:
  "\<forall>t\<in>set vec. token_ok t \<Longrightarrow> \<forall>t\<in>set (tokenise_loop s vec). token_ok t"
proof (induction s arbitrary: vec)
  case Nil
  then show ?case by simp
next
  case (Cons c cs)
  show ?case
  proof (cases "c \<noteq> CHR '' '' \<and> vec \<noteq> [] \<and> isdigit c \<and> is_number (last vec)")
    case True
    then have "token_ok (last vec @ [c])"
      by (simp add: token_ok_def is_number_iff)
    moreover have "\<forall>t\<in>set (butlast vec). token_ok t"
      using Cons.prems by (auto dest: in_set_butlastD)
    ultimately have "\<forall>t\<in>set (butlast vec @ [last vec @ [c]]). token_ok t"
      by auto
    from Cons.IH [OF this] True show ?thesis by simp
  next
    case False
    have "\<forall>t\<in>set (vec @ [[c]]). token_ok t"
      using Cons.prems by (auto simp: token_ok_def)
    from Cons.IH [OF this] Cons.IH [OF Cons.prems] False show ?thesis by auto
  qed
qed

text \<open>
  Claim C10. Every token that \<open>tokenise\<close> produces is a non-empty string, and a token
  longer than one character consists of decimal digits only, so a token that is not a
  number is exactly one character long.
\<close>

theorem tokenise_tokens_shape:
  "\<forall>t\<in>set (tokenise s). t \<noteq> [] \<and> (1 < length t \<longrightarrow> is_number t) \<and>
      (\<not> is_number t \<longrightarrow> length t = 1)"
proof
  fix t assume "t \<in> set (tokenise s)"
  moreover have "\<forall>t\<in>set (tokenise_loop s []). token_ok t"
    by (rule tokenise_loop_token_ok) simp
  ultimately have "token_ok t" by (simp add: tokenise_def)
  then show "t \<noteq> [] \<and> (1 < length t \<longrightarrow> is_number t) \<and> (\<not> is_number t \<longrightarrow> length t = 1)"
    by (cases t) (auto simp: token_ok_def)
qed

theorem tokenise_tokens_shape_witness:
  "tokenise ''12+3 * 45'' = [''12'', ''+'', ''3'', ''*'', ''45''] \<and>
   is_number ''12'' \<and> \<not> is_number ''+'' \<and> length ''+'' = 1"
  using tokenise_tokens_shape [of "''12+3 * 45''"]
  by (simp add: tokenise_def is_number_def isdigit_def)

text \<open>
  Claim C7 says that \<open>tokenise\<close> drops all white space, and that an input of white
  space only gives the empty sequence; the comment above the function (lines 113-120)
  says the same, "if it is not a whitespace". The code compares with the space
  character only (line 126): a string of spaces gives the empty sequence, and a tab,
  which is white space, is returned as a token, alone and between other tokens.
\<close>

theorem tokenise_keeps_tab:
  "tokenise ''  '' = [] \<and>
   tokenise [CHR 0x09] = [[CHR 0x09]] \<and>
   tokenise [CHR ''1'', CHR 0x09, CHR ''+'', CHR '' '', CHR ''2''] =
     [''1'', [CHR 0x09], ''+'', ''2'']"
  by (simp add: tokenise_def is_number_def isdigit_def)

section \<open>The empty tree\<close>

text \<open>
  Claim C3, as the code has it. On a tree with no root, whatever its cached size,
  \<open>evaluateWholeTree\<close>, \<open>prefixOrder\<close>, \<open>infixOrder\<close> and \<open>postfixOrder\<close> each read
  \<^verbatim>\<open>root->getOperator()\<close> through the null root: the source has no check and signals no
  error of its own.
\<close>

theorem empty_tree_null_dereference:
  "evaluateWholeTree \<lparr>root = Null, cached_size = n\<rparr> = Inl NullDereference \<and>
   prefixOrder \<lparr>root = Null, cached_size = n\<rparr> = Inl NullDereference \<and>
   infixOrder \<lparr>root = Null, cached_size = n\<rparr> = Inl NullDereference \<and>
   postfixOrder \<lparr>root = Null, cached_size = n\<rparr> = Inl NullDereference"
  by (simp add: evaluateWholeTree_def prefixOrder_def infixOrder_def postfixOrder_def
      after_def)

text \<open>The tree that the default constructor makes is empty, and evaluating it
  dereferences the null root.\<close>

theorem empty_tree_counterexample:
  "isEmpty ExprTree_empty \<and> root ExprTree_empty = Null \<and>
   evaluateWholeTree ExprTree_empty = Inl NullDereference"
  by (simp add: ExprTree_empty_def isEmpty_def evaluateWholeTree_def)

section \<open>Conversion, building and evaluation of a well-formed expression\<close>

lemma pop_not_lower_eq:
  "pop_not_lower i opStack vec =
     (dropWhile (\<lambda>t. getPrecedence i \<le> getPrecedence t) opStack,
      vec @ takeWhile (\<lambda>t. getPrecedence i \<le> getPrecedence t) opStack)"
  by (induction opStack arbitrary: vec) simp_all

lemma pop_all_eq: "pop_all opStack vec = vec @ opStack"
  by (induction opStack arbitrary: vec) simp_all

lemma emitted_pending: "emitted e @ pending e = postfix_of e"
  by (induction e) simp_all

lemma getPrecedence_op [simp]:
  "getPrecedence ''+'' = 1" "getPrecedence ''-'' = 1"
  "getPrecedence ''*'' = 2" "getPrecedence ''/'' = 2" "getPrecedence ''('' = 0"
  by (simp_all add: getPrecedence_def)

lemma not_number_op [simp]:
  "\<not> is_number ''+''" "\<not> is_number ''-''" "\<not> is_number ''*''" "\<not> is_number ''/''"
  "\<not> is_number ''(''" "\<not> is_number '')''"
  by (simp_all add: is_number_def isdigit_def)

lemma pending_prec:
  "grammatical e \<Longrightarrow> p \<in> set (pending e) \<Longrightarrow>
     level e < getPrecedence p \<and> getPrecedence p \<le> 2"
  by (induction e) (auto split: if_splits)

lemma pop_to_open_pending:
  "\<forall>p\<in>set ps. p \<noteq> ''('' \<Longrightarrow> pop_to_open (ps @ ''('' # st) vec = Inr (st, vec @ ps)"
  by (induction ps arbitrary: vec) simp_all

lemma pop_not_lower_pending:
  assumes "\<forall>p\<in>set ps. getPrecedence i \<le> getPrecedence p"
    and "case st of [] \<Rightarrow> True | t # _ \<Rightarrow> getPrecedence t < getPrecedence i"
  shows "pop_not_lower i (ps @ st) vec = (st, vec @ ps)"
  using assms by (induction ps arbitrary: vec) (auto split: list.splits)

text \<open>The converter on the tokens of a parse tree, from any stack that admits it.\<close>

lemma postfix_loop_phrase:
  "grammatical e \<Longrightarrow> admits e opStack \<Longrightarrow>
     postfix_loop (tokens_of e @ rest) opStack vec =
     postfix_loop rest (pending e @ opStack) (vec @ emitted e)"
proof (induction e arbitrary: opStack vec rest)
  case (Number s)
  then have "s \<noteq> ''(''" "s \<noteq> '')''" by auto
  with Number show ?case by simp
next
  case (Paren e)
  have "admits e (''('' # opStack)" by (simp add: admits_def)
  from Paren.IH [OF _ this] Paren.prems(1)
  have "postfix_loop (tokens_of e @ '')'' # rest) (''('' # opStack) vec =
        postfix_loop ('')'' # rest) (pending e @ ''('' # opStack) (vec @ emitted e)"
    by simp
  moreover have "\<forall>p\<in>set (pending e). p \<noteq> ''(''"
    using pending_prec [of e] Paren.prems(1) by fastforce
  ultimately show ?case
    by (simp add: pop_to_open_pending emitted_pending)
next
  case (Binary l c r)
  from Binary.prems(1) have gl: "grammatical l" and gr: "grammatical r" by simp_all
  from Binary.prems(1) have c: "c \<in> set ''+-*/''" by auto
  then have tok: "[c] \<noteq> ''(''" "[c] \<noteq> '')''" "\<not> is_number [c]" by auto
  have lev: "getPrecedence [c] = Suc (level (Binary l c r))"
    using c by auto
  have al: "admits l opStack"
    using Binary.prems by (auto simp: admits_def split: list.splits if_splits)
  have ar: "admits r ([c] # opStack)"
    using Binary.prems(1) by (auto simp: admits_def)
  have pl: "\<forall>p\<in>set (pending l). getPrecedence [c] \<le> getPrecedence p"
    using pending_prec [OF gl] Binary.prems(1) by (fastforce split: if_splits)
  have st: "case opStack of [] \<Rightarrow> True | t # _ \<Rightarrow> getPrecedence t < getPrecedence [c]"
    using Binary.prems(2) lev by (auto simp: admits_def split: list.splits)
  have "postfix_loop (tokens_of (Binary l c r) @ rest) opStack vec =
        postfix_loop ([c] # tokens_of r @ rest) (pending l @ opStack) (vec @ emitted l)"
    using Binary.IH(1) [OF gl al] by simp
  also have "\<dots> = postfix_loop (tokens_of r @ rest) ([c] # opStack) (vec @ postfix_of l)"
    using tok by (simp add: pop_not_lower_pending [OF pl st] emitted_pending)
  also have "\<dots> = postfix_loop rest (pending r @ [c] # opStack) (vec @ postfix_of l @ emitted r)"
    using Binary.IH(2) [OF gr ar] by simp
  finally show ?case by simp
qed

lemma to_postfix_phrase: "grammatical e \<Longrightarrow> to_postfix (tokens_of e) = Inr (postfix_of e)"
  using postfix_loop_phrase [of e "[]" "[]" "[]"]
  by (simp add: to_postfix_def admits_def pop_all_eq emitted_pending)

lemma createOperatorNode_char:
  "createOperatorNode [c] = Node (kind_of c) 0 Null Null"
  by (simp add: createOperatorNode_def new_TreeNode_op_def kind_of_def)

lemma build_loop_phrase:
  "grammatical e \<Longrightarrow>
     build_loop (postfix_of e @ rest) nodeStack = build_loop rest (tree_of e # nodeStack)"
proof (induction e arbitrary: rest nodeStack)
  case (Number s)
  then show ?case by (simp add: new_TreeNode_int_def)
next
  case (Paren e)
  then show ?case by simp
next
  case (Binary l c r)
  then have "\<not> is_number [c]" by auto
  with Binary show ?case
    by (simp add: createOperatorNode_char)
qed

lemma buildTree_phrase:
  "grammatical e \<Longrightarrow> buildTree (tokens_of e) = Inr (ExprTree_of (tree_of e))"
  using build_loop_phrase [of e "[]" "[]"]
  by (simp add: buildTree_def to_postfix_phrase)

lemma sint_in_int: "in_int v \<Longrightarrow> sint (word_of_int v :: int32) = v"
  by (simp add: in_int_def sint_sbintrunc' signed_take_bit_int_eq_self)

lemma to_number_digits: "is_number s \<Longrightarrow> to_number s = word_of_nat (decimal s)"
  by (simp add: to_number_def is_number_iff takeWhile_eq_all_conv [THEN iffD2])

lemma evaluate_phrase:
  "grammatical e \<Longrightarrow> within_int e \<Longrightarrow>
     \<exists>v. meaning e = Some v \<and> in_int v \<and> evaluate (tree_of e) = Inr (word_of_int v)"
proof (induction e)
  case (Number s)
  then show ?case by (simp add: to_number_digits)
next
  case (Paren e)
  then show ?case by simp
next
  case (Binary l c r)
  from Binary obtain a b where
    a: "meaning l = Some a" "in_int a" "evaluate (tree_of l) = Inr (word_of_int a)" and
    b: "meaning r = Some b" "in_int b" "evaluate (tree_of r) = Inr (word_of_int b)"
    by auto
  from Binary.prems(1) have "c \<in> set ''+-*/''" by auto
  then consider "c = CHR ''+''" | "c = CHR ''-''" | "c = CHR ''*''" | "c = CHR ''/''" by auto
  then show ?case
  proof cases
    case 1
    with a b Binary.prems(2) show ?thesis by (simp add: binop_def kind_of_def)
  next
    case 2
    with a b Binary.prems(2) show ?thesis by (simp add: binop_def kind_of_def)
  next
    case 3
    with a b Binary.prems(2) show ?thesis by (simp add: binop_def kind_of_def)
  next
    case 4
    with a b Binary.prems(2) have nz: "b \<noteq> 0" by (auto split: if_splits)
    have "sint (word_of_int b :: int32) \<noteq> 0"
      using nz b(2) by (simp add: sint_in_int)
    then have nzw: "(word_of_int b :: int32) \<noteq> 0" by auto
    from 4 a b nz Binary.prems(2) have q: "in_int (a sdiv b)" by simp
    have "\<not> (a = - (2 ^ 31) \<and> b = - 1)"
    proof
      assume "a = - (2 ^ 31) \<and> b = - 1"
      then have "a sdiv b = 2 ^ 31" by (simp add: signed_divide_int_def)
      with q show False by (simp add: in_int_def)
    qed
    with 4 a b nz nzw Binary.prems(2) show ?thesis
      by (auto simp: binop_def int_div_def sint_in_int kind_of_def)
  qed
qed

lemmas eval_simps =
  evaluate_tokens_def buildTree_def to_postfix_def tokenise_def is_number_def
  isdigit_def getPrecedence_def createOperatorNode_def new_TreeNode_op_def
  new_TreeNode_int_def to_number_def decimal_def digit_val_def ExprTree_of_def
  evaluateWholeTree_def binop_def int_div_def in_int_def

text \<open>
  Claim C1, as the code has it. For every well-formed token sequence all of whose
  numbers and intermediate results lie in the range of \<^verbatim>\<open>int\<close> and in which no divisor
  is zero, \<open>evaluateWholeTree\<close> applied to \<open>buildTree\<close> of the sequence returns the value
  of the expression in the integers, under the usual precedence, left-to-right
  association and truncating division.
\<close>

theorem evaluate_well_formed:
  assumes "grammatical e" and "within_int e" and "meaning e = Some v"
  shows "evaluate_tokens (tokens_of e) = Inr (word_of_int v) \<and>
         sint (word_of_int v :: int32) = v"
proof -
  from evaluate_phrase [OF assms(1,2)] assms(3)
  have "in_int v" and "evaluate (tree_of e) = Inr (word_of_int v)" by auto
  then show ?thesis
    using assms(1)
    by (simp add: evaluate_tokens_def buildTree_phrase evaluateWholeTree_def ExprTree_of_def
        sint_in_int)
qed

theorem evaluate_well_formed_witness:
  "tokens_of (Binary (Paren (Binary (Number ''0'') CHR ''-'' (Number ''7''))) CHR ''/''
      (Number ''2'')) = [''('', ''0'', ''-'', ''7'', '')'', ''/'', ''2''] \<and>
   evaluate_tokens [''('', ''0'', ''-'', ''7'', '')'', ''/'', ''2''] = Inr (- 3) \<and>
   tokens_of (Binary (Number ''3'') CHR ''+'' (Binary (Number ''4'') CHR ''*'' (Number ''2'')))
     = [''3'', ''+'', ''4'', ''*'', ''2''] \<and>
   evaluate_tokens [''3'', ''+'', ''4'', ''*'', ''2''] = Inr 11"
  using
    evaluate_well_formed [of "Binary (Paren (Binary (Number ''0'') CHR ''-'' (Number ''7'')))
      CHR ''/'' (Number ''2'')" "- 3"]
    evaluate_well_formed [of "Binary (Number ''3'') CHR ''+''
      (Binary (Number ''4'') CHR ''*'' (Number ''2''))" 11]
  by (simp add: is_number_def isdigit_def decimal_def digit_val_def in_int_def)

text \<open>The claim as stated fails where the value leaves the range of \<^verbatim>\<open>int\<close>:
  \<^verbatim>\<open>2147483647+1\<close> is well formed and its value is 2147483648, and the code
  returns -2147483648.\<close>

theorem evaluate_overflow_counterexample:
  "grammatical (Binary (Number ''2147483647'') CHR ''+'' (Number ''1'')) \<and>
   tokens_of (Binary (Number ''2147483647'') CHR ''+'' (Number ''1''))
     = [''2147483647'', ''+'', ''1''] \<and>
   meaning (Binary (Number ''2147483647'') CHR ''+'' (Number ''1'')) = Some 2147483648 \<and>
   map_sum id sint (evaluate_tokens [''2147483647'', ''+'', ''1'']) = Inr (- 2147483648)"
  by (simp add: eval_simps)

section \<open>Operators of equal precedence\<close>

lemma chain_tokens_hd: "chain_tokens x ps = x # tl (chain_tokens x ps)"
  by (cases ps) auto

lemma tokens_of_chain_phrase:
  "tokens_of (chain_phrase e ps) = tokens_of e @ tl (chain_tokens x ps)"
proof (induction ps arbitrary: e x)
  case Nil
  then show ?case by simp
next
  case (Cons p ps)
  obtain c y where p: "p = (c, y)" by (cases p)
  from Cons [of "Binary e c (Number y)" y] chain_tokens_hd [of y ps]
  show ?case by (simp add: p)
qed

lemma postfix_of_chain_phrase:
  "postfix_of (chain_phrase e ps) = postfix_of e @ chain_postfix ps"
  by (induction ps arbitrary: e) auto

lemma tree_of_chain_phrase: "tree_of (chain_phrase e ps) = chain_tree (tree_of e) ps"
  by (induction ps arbitrary: e) auto

lemma grammatical_chain_additive:
  "grammatical e \<Longrightarrow> list_all (\<lambda>(c, y). is_number y) ps \<Longrightarrow>
     list_all (\<lambda>(c, y). c \<in> set ''+-'') ps \<Longrightarrow> grammatical (chain_phrase e ps)"
  by (induction ps arbitrary: e) auto

lemma grammatical_chain_multiplicative:
  "grammatical e \<Longrightarrow> 1 \<le> level e \<Longrightarrow> list_all (\<lambda>(c, y). is_number y) ps \<Longrightarrow>
     list_all (\<lambda>(c, y). c \<in> set ''*/'') ps \<Longrightarrow> grammatical (chain_phrase e ps)"
  by (induction ps arbitrary: e) auto

lemma chain_is_phrase:
  assumes "is_number x" and "one_precedence ps"
  shows "grammatical (chain_phrase (Number x) ps) \<and>
         tokens_of (chain_phrase (Number x) ps) = chain_tokens x ps"
proof -
  have "grammatical (chain_phrase (Number x) ps)"
    using assms grammatical_chain_additive [of "Number x" ps]
      grammatical_chain_multiplicative [of "Number x" ps]
    by (auto simp: one_precedence_def)
  moreover have "tokens_of (chain_phrase (Number x) ps) = chain_tokens x ps"
    using tokens_of_chain_phrase [of "Number x" ps x] chain_tokens_hd [of x ps] by simp
  ultimately show ?thesis by simp
qed

lemma evaluate_8_3_2: "evaluate_tokens (tokenise ''8-3-2'') = Inr 3"
  by (simp add: eval_simps)

text \<open>
  Claim C5. When the converter scans an operator token, it moves operators from the
  stack to the output while the top of the stack has a precedence greater than or equal
  to that of the scanned operator, and then pushes the scanned operator: the rest of
  the input is converted from that stack and that output, and when the operator is the
  last token the output is the old output, the operators popped, the scanned operator
  and what was left of the stack. So operators of equal precedence associate from left
  to right: a chain \<^verbatim>\<open>x0 c1 x1 c2 x2 ...\<close> of operators of one precedence is converted to
  \<^verbatim>\<open>x0 x1 c1 x2 c2 ...\<close> and built into the tree \<^verbatim>\<open>((x0 c1 x1) c2 x2) ...\<close>, and
  \<^verbatim>\<open>8-3-2\<close> evaluates to 3.
\<close>

theorem operator_pops_not_lower:
  "(\<not> is_number i \<and> i \<noteq> ''('' \<and> i \<noteq> '')'' \<longrightarrow>
      postfix_loop (i # tokens) opStack vec =
      postfix_loop tokens
        (i # dropWhile (\<lambda>t. getPrecedence t \<ge> getPrecedence i) opStack)
        (vec @ takeWhile (\<lambda>t. getPrecedence t \<ge> getPrecedence i) opStack) \<and>
      postfix_loop [i] opStack vec =
        Inr (vec @ takeWhile (\<lambda>t. getPrecedence t \<ge> getPrecedence i) opStack @
             i # dropWhile (\<lambda>t. getPrecedence t \<ge> getPrecedence i) opStack)) \<and>
   (is_number x \<and> one_precedence ps \<longrightarrow>
      to_postfix (chain_tokens x ps) = Inr (x # chain_postfix ps) \<and>
      buildTree (chain_tokens x ps) =
        Inr (ExprTree_of (chain_tree (Node Value (to_number x) Null Null) ps))) \<and>
   evaluate_tokens (tokenise ''8-3-2'') = Inr 3"
proof -
  have "to_postfix (chain_tokens x ps) = Inr (x # chain_postfix ps) \<and>
        buildTree (chain_tokens x ps) =
          Inr (ExprTree_of (chain_tree (Node Value (to_number x) Null Null) ps))"
    if "is_number x" "one_precedence ps"
  proof -
    from chain_is_phrase [OF that]
    have g: "grammatical (chain_phrase (Number x) ps)"
      and t: "tokens_of (chain_phrase (Number x) ps) = chain_tokens x ps" by simp_all
    from to_postfix_phrase [OF g] buildTree_phrase [OF g] show ?thesis
      by (simp add: t postfix_of_chain_phrase tree_of_chain_phrase)
  qed
  then show ?thesis
    by (simp add: pop_not_lower_eq pop_all_eq evaluate_8_3_2)
qed

theorem operator_pops_not_lower_witness:
  "\<not> is_number ''-'' \<and>
   postfix_loop [''-'', ''2''] [''-'', ''(''] [''8'', ''3''] =
     postfix_loop [''2''] [''-'', ''(''] [''8'', ''3'', ''-''] \<and>
   postfix_loop [''-''] [''*'', ''-'', ''(''] [''8'', ''3'', ''2''] =
     Inr [''8'', ''3'', ''2'', ''*'', ''-'', ''-'', ''(''] \<and>
   one_precedence [(CHR ''-'', ''3''), (CHR ''-'', ''2'')] \<and>
   chain_tokens ''8'' [(CHR ''-'', ''3''), (CHR ''-'', ''2'')] = [''8'', ''-'', ''3'', ''-'', ''2''] \<and>
   to_postfix [''8'', ''-'', ''3'', ''-'', ''2''] = Inr [''8'', ''3'', ''-'', ''2'', ''-''] \<and>
   buildTree [''8'', ''-'', ''3'', ''-'', ''2''] =
     Inr (ExprTree_of (Node Minus 0
       (Node Minus 0 (Node Value 8 Null Null) (Node Value 3 Null Null))
       (Node Value 2 Null Null)))"
  using operator_pops_not_lower [of "''-''" "[''2'']" "[''-'', ''('']" "[''8'', ''3'']"]
    operator_pops_not_lower [of "''-''" "[]" "[''*'', ''-'', ''('']" "[''8'', ''3'', ''2'']"]
    operator_pops_not_lower [of _ _ _ _ "''8''" "[(CHR ''-'', ''3''), (CHR ''-'', ''2'')]"]
  by (simp add: one_precedence_def is_number_def isdigit_def getPrecedence_def kind_of_def
      to_number_def decimal_def digit_val_def)

section \<open>The size of a built tree\<close>



lemma is_operator_simps [simp]:
  "\<not> is_operator ''(''" "\<not> is_operator '')''"
  "is_number s \<Longrightarrow> \<not> is_operator s"
  by (auto simp: is_operator_def)





section \<open>Division by zero\<close>

lemma evaluate_arithmetic_tree:
  "arithmetic_tree t \<Longrightarrow>
     evaluate t = Inl UndefinedDivisionByZero \<or> evaluate t = Inl UndefinedDivisionOverflow \<or>
     (\<exists>v. evaluate t = Inr v)"
proof (induction t)
  case Null
  then show ?case by simp
next
  case (Node k v l r)
  then show ?case
    by (cases k) (auto simp: binop_def int_div_def split: if_splits)
qed

lemma evaluate_divides_by_zero:
  "arithmetic_tree t \<Longrightarrow> divides_by_zero t \<Longrightarrow>
     evaluate t = Inl UndefinedDivisionByZero \<or> evaluate t = Inl UndefinedDivisionOverflow"
proof (induction t)
  case Null
  then show ?case by simp
next
  case (Node k v l r)
  show ?case
  proof (cases "k = Value \<or> k = NoOp")
    case True
    with Node.prems show ?thesis by auto
  next
    case False
    with Node.prems have al: "arithmetic_tree l" and ar: "arithmetic_tree r"
      by (cases k; simp)+
    from evaluate_arithmetic_tree [OF al] evaluate_arithmetic_tree [OF ar]
      Node.IH(1) [OF al] Node.IH(2) [OF ar] Node.prems(2) False
    show ?thesis
      by (cases k) (auto simp: binop_def int_div_def split: if_splits)
  qed
qed

lemma evaluate_NoOp: "evaluate (Node NoOp v l r) = Inr v"
  by simp

text \<open>
  Claim C2, as the code has it. The source divides with no test of the divisor and
  signals no error. A \<open>Divide\<close> node whose left subtree evaluates to a value and whose
  right subtree evaluates to zero executes the division of an \<^verbatim>\<open>int\<close> by zero, which
  C++ leaves undefined. In a tree of \<open>Value\<close> leaves and \<open>Plus\<close>, \<open>Minus\<close>, \<open>Times\<close>,
  \<open>Divide\<close> nodes that contains a \<open>Divide\<close> node whose right subtree evaluates to zero,
  evaluation executes an undefined division: one by zero, or before it one of
  \<^verbatim>\<open>INT_MIN\<close> by -1. The tree built for \<^verbatim>\<open>5/0\<close> executes the division of 5 by zero.
\<close>

theorem zero_divisor_undefined_division:
  "(evaluate l = Inr a \<and> evaluate r = Inr 0 \<longrightarrow>
      evaluate (Node Divide v l r) = Inl UndefinedDivisionByZero) \<and>
   (arithmetic_tree t \<and> divides_by_zero t \<longrightarrow>
      evaluate t = Inl UndefinedDivisionByZero \<or> evaluate t = Inl UndefinedDivisionOverflow) \<and>
   evaluate_tokens (tokenise ''5/0'') = Inl UndefinedDivisionByZero"
  by (simp add: evaluate_divides_by_zero binop_def int_div_def) (simp add: eval_simps)

theorem zero_divisor_undefined_division_witness:
  "evaluate (Node Value 5 Null Null) = Inr 5 \<and> evaluate (Node Value 0 Null Null) = Inr 0 \<and>
   evaluate (Node Divide 0 (Node Value 5 Null Null) (Node Value 0 Null Null))
     = Inl UndefinedDivisionByZero \<and>
   arithmetic_tree (Node Plus 0 (Node Value 1 Null Null)
      (Node Divide 0 (Node Value 5 Null Null) (Node Value 0 Null Null))) \<and>
   divides_by_zero (Node Plus 0 (Node Value 1 Null Null)
      (Node Divide 0 (Node Value 5 Null Null) (Node Value 0 Null Null))) \<and>
   evaluate (Node Plus 0 (Node Value 1 Null Null)
      (Node Divide 0 (Node Value 5 Null Null) (Node Value 0 Null Null)))
     = Inl UndefinedDivisionByZero"
  using
    zero_divisor_undefined_division [of "Node Value 5 Null Null" 5 "Node Value 0 Null Null" 0
      "Node Plus 0 (Node Value 1 Null Null)
        (Node Divide 0 (Node Value 5 Null Null) (Node Value 0 Null Null))"]
  by (simp add: binop_def int_div_def)

text \<open>The claim as stated fails. On \<^verbatim>\<open>5/0\<close> the code raises no error: it executes the
  division of 5 by 0, which is undefined behaviour. And a tree can contain such a
  division and return a value: under a \<open>NoOp\<close> node, \<open>evaluate\<close> returns the value
  stored in that node (line 256) and never reaches the division.\<close>

theorem division_by_zero_counterexample:
  "evaluate_tokens (tokenise ''5/0'') = Inl UndefinedDivisionByZero \<and>
   divides_by_zero (Node NoOp 7
       (Node Divide 0 (Node Value 5 Null Null) (Node Value 0 Null Null))
       (Node Value 1 Null Null)) \<and>
   evaluate (Node NoOp 7
       (Node Divide 0 (Node Value 5 Null Null) (Node Value 0 Null Null))
       (Node Value 1 Null Null)) = Inr 7"
  by (simp add: eval_simps)

section \<open>Malformed token sequences\<close>

lemma pop_to_open_no_open:
  "count_list opStack ''('' = 0 \<Longrightarrow> pop_to_open opStack vec = Inl EmptyStackTop"
  by (induction opStack arbitrary: vec) (simp_all split: if_splits)

lemma pop_to_open_count:
  "pop_to_open opStack vec = Inr (opStack', vec') \<Longrightarrow>
     count_list opStack' ''('' = count_list opStack ''('' - 1"
  by (induction opStack arbitrary: vec) (auto split: if_splits)

lemma pop_not_lower_count:
  "i \<noteq> ''('' \<Longrightarrow> count_list (fst (pop_not_lower i opStack vec)) ''('' = count_list opStack ''(''"
  by (induction opStack arbitrary: vec) (auto simp: getPrecedence_def split: if_splits)

lemma postfix_loop_unmatched_close:
  "unmatched_close (count_list opStack ''('') tokens \<Longrightarrow>
     postfix_loop tokens opStack vec = Inl EmptyStackTop"
proof (induction tokens arbitrary: opStack vec)
  case Nil
  then show ?case by simp
next
  case (Cons i tokens)
  show ?case
  proof (cases "i = ''(''")
    case True
    with Cons.prems Cons.IH [of "i # opStack" vec] show ?thesis by simp
  next
    case no_open: False
    show ?thesis
    proof (cases "i = '')''")
      case True
      show ?thesis
      proof (cases "pop_to_open opStack vec")
        case (Inl e)
        then have "e = EmptyStackTop"
          by (induction opStack arbitrary: vec) (auto split: if_splits)
        with Inl True show ?thesis by simp
      next
        case (Inr p)
        obtain opStack' vec' where p: "p = (opStack', vec')" by (cases p)
        from Inr p pop_to_open_no_open [of opStack vec]
        have "count_list opStack ''('' \<noteq> 0" by auto
        with Cons.prems True no_open pop_to_open_count [OF Inr [unfolded p]]
        have "unmatched_close (count_list opStack' ''('') tokens" by simp
        from Cons.IH [OF this] Inr p True show ?thesis by simp
      qed
    next
      case False
      show ?thesis
      proof (cases "is_number i")
        case True
        with Cons.prems no_open False Cons.IH [of opStack "vec @ [i]"] show ?thesis by simp
      next
        case not_number: False
        obtain opStack' vec' where p: "pop_not_lower i opStack vec = (opStack', vec')"
          by (cases "pop_not_lower i opStack vec")
        with pop_not_lower_count [OF no_open, of opStack vec]
        have "count_list (i # opStack') ''('' = count_list opStack ''(''"
          using no_open by simp
        with Cons.prems no_open False
        have "unmatched_close (count_list (i # opStack') ''('') tokens" by simp
        from Cons.IH [OF this] p no_open False not_number show ?thesis by simp
      qed
    qed
  qed
qed

text \<open>
  Claim C4, as the code has it. The source has no defined failure for a malformed
  token sequence. Where a closing parenthesis has no matching opening parenthesis
  before it, the converter, and so the tree builder, calls \<^verbatim>\<open>top()\<close> on the empty
  operator stack; where an operator token reaches the tree builder while the node stack
  holds fewer than two nodes, the builder calls \<^verbatim>\<open>top()\<close> on an empty node stack. Both
  are undefined behaviour, and no error is signalled.
\<close>

theorem malformed_reads_empty_stack:
  "(unmatched_close 0 tokens \<longrightarrow>
      to_postfix tokens = Inl EmptyStackTop \<and> buildTree tokens = Inl EmptyStackTop) \<and>
   (\<not> is_number i \<and> length nodeStack < 2 \<longrightarrow>
      build_loop (i # postfix) nodeStack = Inl EmptyStackTop)"
proof -
  have "to_postfix tokens = Inl EmptyStackTop" if "unmatched_close 0 tokens"
    using postfix_loop_unmatched_close [of "[]" tokens "[]"] that
    by (simp add: to_postfix_def)
  moreover have "build_loop (i # postfix) nodeStack = Inl EmptyStackTop"
    if "\<not> is_number i" "length nodeStack < 2"
    using that by (cases nodeStack; cases "tl nodeStack") auto
  ultimately show ?thesis by (simp add: buildTree_def)
qed

theorem malformed_reads_empty_stack_witness:
  "unmatched_close 0 [''1'', '')'', ''+'', ''2''] \<and>
   buildTree [''1'', '')'', ''+'', ''2''] = Inl EmptyStackTop \<and>
   build_loop [''+'', ''1''] [] = Inl EmptyStackTop"
  using malformed_reads_empty_stack [of "[''1'', '')'', ''+'', ''2'']" "''+''" "[]" "[''1'']"]
  by simp

text \<open>The claim as stated fails: an unmatched closing parenthesis is undefined
  behaviour and not a defined failure, and the malformed \<^verbatim>\<open>(1)(2)\<close>, where an operator
  is missing, is accepted and gives the tree of 2.\<close>

theorem malformed_counterexample:
  "to_postfix (tokenise '')'') = Inl EmptyStackTop \<and>
   buildTree (tokenise ''(1)(2)'') = Inr (ExprTree_of (Node Value 2 Null Null))"
  by (simp add: eval_simps)

section \<open>The round trip through infixOrder\<close>

lemma render_mem_1_plus_2:
  "render_mem f (live tree_1_plus_2) = Inr (f ''+'' ''1'' ''2'', Object Plus 0 Freed Freed)"
  by (simp add: tree_1_plus_2_def after_def to_string_def digits_of.simps digit_char_def)

text \<open>
  Claim C8 says that the string which \<open>infixOrder\<close> gives for a built tree, tokenised
  and built again, gives a tree that evaluates as the original does. The code does not
  get that far, by the defect of claim C9: \<open>infixOrder\<close> frees the children of every
  operator node it renders. On the tree built for \<^verbatim>\<open>1+2+3\<close>, which evaluates to 6,
  the leaves 1 and 2 are freed by the inner call and freed again when the temporary for
  \<^verbatim>\<open>1+2\<close> is destroyed, so that no string is returned; the same on \<^verbatim>\<open>(06*2)-20\<close>. On
  the tree built for \<^verbatim>\<open>1+2\<close> the string is returned and both children of the root of
  the original tree are left freed.
\<close>

theorem round_trip_frees_the_tree:
  "evaluate_tokens [''1'', ''+'', ''2'', ''+'', ''3''] = Inr 6 \<and>
   buildTree [''1'', ''+'', ''2'', ''+'', ''3''] =
     Inr (ExprTree_of (Node Plus 0
       (Node Plus 0 (Node Value 1 Null Null) (Node Value 2 Null Null))
       (Node Value 3 Null Null))) \<and>
   infixOrder (ExprTree_of (Node Plus 0
       (Node Plus 0 (Node Value 1 Null Null) (Node Value 2 Null Null))
       (Node Value 3 Null Null))) = Inl UseAfterFree \<and>
   round_trip [''1'', ''+'', ''2'', ''+'', ''3''] = Inl UseAfterFree \<and>
   evaluate_tokens [''('', ''06'', ''*'', ''2'', '')'', ''-'', ''20''] = Inr (- 8) \<and>
   round_trip [''('', ''06'', ''*'', ''2'', '')'', ''-'', ''20''] = Inl UseAfterFree \<and>
   buildTree [''1'', ''+'', ''2''] = Inr (ExprTree_of tree_1_plus_2) \<and>
   render_mem (\<lambda>s a b. a @ '' '' @ s @ '' '' @ b) (live tree_1_plus_2) =
     Inr (''1 + 2'', Object Plus 0 Freed Freed)"
  by (simp add: render_mem_1_plus_2)
    (simp add: round_trip_def infixOrder_def after_def tree_1_plus_2_def eval_simps
      to_string_def digits_of.simps digit_char_def)

section \<open>What the renderers do to the tree\<close>

lemma place_1_plus_2: "place tree_1_plus_2 Map.empty 0 = (Some 2, store_1_plus_2, 3)"
  by (simp add: tree_1_plus_2_def store_1_plus_2_def numeral_2_eq_2 numeral_3_eq_3)

lemma buildTree_1_plus_2: "buildTree (tokenise ''1+2'') = Inr (ExprTree_of tree_1_plus_2)"
  by (simp add: tree_1_plus_2_def eval_simps)

lemma render_1_plus_2:
  "outcome (render_at f (Suc (Suc (Suc n))) store_1_plus_2 (Some 2)) =
     Some (Inr (f ''+'' ''1'' ''2'',
       [None, None,
        Some \<lparr>obj_op = Plus, obj_value = 0, obj_left = Some 0, obj_right = Some 1\<rparr>]))"
  by (simp add: outcome_def store_1_plus_2_def and_then_def to_string_def digits_of.simps
      digit_char_def)

text \<open>
  Claim C9 says that \<open>prefixOrder\<close>, \<open>infixOrder\<close> and \<open>postfixOrder\<close> leave the tree
  as it was: its root, every node and the cached size. The code does not. On the tree
  built for \<^verbatim>\<open>1+2\<close>, laid out at the addresses 0, 1 and 2 with its root at 2, each
  renderer returns its string, and when it returns the two children of the root have
  been freed: the temporaries constructed for the recursive calls deleted them. The
  root is unchanged and still points at the addresses 0 and 1.
\<close>

theorem renderers_free_the_children:
  "buildTree (tokenise ''1+2'') = Inr (ExprTree_of tree_1_plus_2) \<and>
   place tree_1_plus_2 Map.empty 0 = (Some 2, store_1_plus_2, 3) \<and>
   map store_1_plus_2 [0, 1, 2] =
     [Some \<lparr>obj_op = Value, obj_value = 1, obj_left = None, obj_right = None\<rparr>,
      Some \<lparr>obj_op = Value, obj_value = 2, obj_left = None, obj_right = None\<rparr>,
      Some \<lparr>obj_op = Plus, obj_value = 0, obj_left = Some 0, obj_right = Some 1\<rparr>] \<and>
   outcome (prefixOrder_at (Suc (Suc (Suc n))) store_1_plus_2 (Some 2)) =
     Some (Inr (''+ 1 2'',
       [None, None,
        Some \<lparr>obj_op = Plus, obj_value = 0, obj_left = Some 0, obj_right = Some 1\<rparr>])) \<and>
   outcome (infixOrder_at (Suc (Suc (Suc n))) store_1_plus_2 (Some 2)) =
     Some (Inr (''1 + 2'',
       [None, None,
        Some \<lparr>obj_op = Plus, obj_value = 0, obj_left = Some 0, obj_right = Some 1\<rparr>])) \<and>
   outcome (postfixOrder_at (Suc (Suc (Suc n))) store_1_plus_2 (Some 2)) =
     Some (Inr (''1 2 +'',
       [None, None,
        Some \<lparr>obj_op = Plus, obj_value = 0, obj_left = Some 0, obj_right = Some 1\<rparr>]))"
  by (simp add: buildTree_1_plus_2 place_1_plus_2 prefixOrder_at_def infixOrder_at_def
      postfixOrder_at_def render_1_plus_2 del: render_at.simps)
    (simp add: store_1_plus_2_def)

end
